theory Spec2Isabelle
  imports Main
begin

section \<open>Python values, exceptions and diagnostics\<close>

text \<open>
  The workflow of \<^verbatim>\<open>swarms/structs/base_workflow.py\<close> stores untyped Python values in
  its tasks and exchanges them with a JSON file. \<open>pyval\<close> is the universe of values the
  model covers: \<open>None\<close>, booleans, integers, strings, lists, dictionaries with string keys
  (in insertion order), and opaque objects (\<open>PObj\<close>, compared by identity, such as an
  agent), which the \<open>json\<close> module cannot serialise. Floats and tuples are left out,
  and nesting is taken to stay below the interpreter's recursion limit.
\<close>

datatype pyval =
    PNone
  | PBool bool
  | PInt int
  | PStr string
  | PList "pyval list"
  | PDict "(string \<times> pyval) list"
  | PObj nat

text \<open>The exceptions the modelled code can raise; \<open>KeyError\<close> carries the missing key.\<close>

datatype exn =
    ValueError
  | AttributeError
  | KeyError string
  | TypeError
  | FileNotFoundError
  | PermissionError
  | JSONDecodeError

text \<open>
  Every \<^verbatim>\<open>except Exception as error: print(colored(f"Error ...: {error}", "red"))\<close>
  handler prints one line; a diagnostic names the handler and the exception it caught.
\<close>

datatype diag =
    Error_resetting_workflow exn
  | Error_getting_task_results exn
  | Error_removing_task exn
  | Error_updating_task exn
  | Error_deleting_task exn
  | Error_saving_workflow_state exn
  | Error_loading_workflow_state exn

section \<open>Tasks and the workflow object\<close>

text \<open>
  Modelled from the spec: the class \<^verbatim>\<open>Task\<close> of \<^verbatim>\<open>swarms.structs.task\<close>, which the
  workflow imports and whose source is not among the files. A Task is a plain object
  with the six fields \<open>description\<close>, \<open>agent\<close>, \<open>args\<close>, \<open>kwargs\<close>, \<open>result\<close>, \<open>history\<close>;
  its constructor stores the keyword arguments it is given without checking them, and a
  Task is always truthy. Python does not enforce the annotated field types, and
  \<^verbatim>\<open>load_workflow_state\<close> builds Tasks from whatever the file holds, so every field is
  a \<open>pyval\<close>. In this first model a list holds the tasks themselves, which is all that
  the claims about one list need; the Task objects that two lists share, and the list
  object that two attributes share, are modelled in the section on shared objects below.
\<close>

record task =
  description :: pyval
  agent :: pyval
  args :: pyval
  kwargs :: pyval
  result :: pyval
  history :: pyval

text \<open>
  \<^verbatim>\<open>BaseWorkflow.__init__\<close> sets only \<^verbatim>\<open>self.task_pool = []\<close>. The attributes
  \<^verbatim>\<open>tasks\<close>, \<^verbatim>\<open>max_loops\<close>, \<^verbatim>\<open>saved_state_filepath\<close> and
  \<^verbatim>\<open>restore_state_filepath\<close> are read by the methods but set elsewhere (a subclass or
  the caller), so each is optional: \<open>None\<close> is an attribute that does not exist, and
  reading it raises \<open>AttributeError\<close>.
\<close>

record workflow =
  task_pool :: "task list"
  tasks :: "task list option"
  max_loops :: "pyval option"
  saved_state_filepath :: "string option"
  restore_state_filepath :: "string option"


section \<open>add\<close>

text \<open>
  \<^verbatim>\<open>
  def add(self, task: Task = None, tasks: List[Task] = None, *args, **kwargs):
      if task:
          self.task_pool.append(task)
      elif tasks:
          self.task_pool.extend(tasks)
      else:
          raise ValueError("You must provide a task or a list of tasks")
  \<close>
  \<open>add\<close> has no handler: the \<open>ValueError\<close> reaches the caller (\<open>Inl\<close>). A Task is
  truthy; \<open>None\<close> and the empty list are falsy.
\<close>

definition add :: "workflow \<Rightarrow> task option \<Rightarrow> task list option \<Rightarrow> exn + workflow" where
  "add w task_arg tasks_arg =
     (case task_arg of
        Some t \<Rightarrow> Inr (w\<lparr>task_pool := task_pool w @ [t]\<rparr>)
      | None \<Rightarrow>
          (case tasks_arg of
             Some (x # xs) \<Rightarrow> Inr (w\<lparr>task_pool := task_pool w @ (x # xs)\<rparr>)
           | Some [] \<Rightarrow> Inl ValueError
           | None \<Rightarrow> Inl ValueError))"

section \<open>reset and get_task_results\<close>

text \<open>
  \<^verbatim>\<open>
  def reset(self) -> None:
      try:
          for task in self.tasks:
              task.result = None
      except Exception as error:
          print(colored(f"Error resetting workflow: {error}", "red"))
  \<close>
  Each method with a handler returns the workflow after the call and the line it
  printed, if any.
\<close>

definition reset :: "workflow \<Rightarrow> workflow \<times> diag option" where
  "reset w =
     (case tasks w of
        None \<Rightarrow> (w, Some (Error_resetting_workflow AttributeError))
      | Some ts \<Rightarrow> (w\<lparr>tasks := Some (map (\<lambda>t. t\<lparr>result := PNone\<rparr>) ts)\<rparr>, None))"

text \<open>
  \<^verbatim>\<open>
  def get_task_results(self) -> Dict[str, Any]:
      try:
          return {task.description: task.result for task in self.tasks}
      except Exception as error:
          print(colored(f"Error getting task results: {error}", "red"))
  \<close>
  A dictionary key must be hashable (a list or a dictionary is not: \<open>TypeError\<close>), and
  \<open>True\<close> and \<open>1\<close> (\<open>False\<close> and \<open>0\<close>) are the same key. A key that is set again keeps
  its place and its first spelling and takes the new value. When the handler runs the
  method returns \<open>None\<close>.
\<close>

fun hashable :: "pyval \<Rightarrow> bool" where
  "hashable (PList xs) = False"
| "hashable (PDict kvs) = False"
| "hashable v = True"

fun key_norm :: "pyval \<Rightarrow> pyval" where
  "key_norm (PBool b) = PInt (if b then 1 else 0)"
| "key_norm v = v"

fun dict_setitem :: "(pyval \<times> pyval) list \<Rightarrow> pyval \<Rightarrow> pyval \<Rightarrow> (pyval \<times> pyval) list" where
  "dict_setitem [] k v = [(k, v)]"
| "dict_setitem ((k', v') # d) k v =
     (if key_norm k' = key_norm k then (k', v) # d else (k', v') # dict_setitem d k v)"

fun results_dict :: "(pyval \<times> pyval) list \<Rightarrow> task list \<Rightarrow> exn + (pyval \<times> pyval) list" where
  "results_dict d [] = Inr d"
| "results_dict d (t # ts) =
     (if hashable (description t)
      then results_dict (dict_setitem d (description t) (result t)) ts
      else Inl TypeError)"

definition get_task_results :: "workflow \<Rightarrow> (pyval \<times> pyval) list option \<times> diag option" where
  "get_task_results w =
     (case tasks w of
        None \<Rightarrow> (None, Some (Error_getting_task_results AttributeError))
      | Some ts \<Rightarrow>
          (case results_dict [] ts of
             Inl e \<Rightarrow> (None, Some (Error_getting_task_results e))
           | Inr d \<Rightarrow> (Some d, None)))"

section \<open>remove_task, update_task and delete_task\<close>

text \<open>
  In all three methods the parameter \<^verbatim>\<open>task\<close> (the description to look for, a
  string) is shadowed by the loop variable of the same name. \<open>binding\<close> is what the
  name \<^verbatim>\<open>task\<close> stands for where it is read: the parameter before the loop, the
  current element inside it. \<open>py_eq v b\<close> is Python's \<^verbatim>\<open>v == task\<close> for a value \<open>v\<close>
  of \<open>pyval\<close>: a value equals a string when it is that string, and it never equals a
  Task (neither side's \<^verbatim>\<open>__eq__\<close> accepts the other, and Python falls back to
  identity). Inside the loops the test \<^verbatim>\<open>task.description == task\<close> therefore
  compares the description of the current Task with that Task.
\<close>

datatype binding = Parameter string | Element task

fun py_eq :: "pyval \<Rightarrow> binding \<Rightarrow> bool" where
  "py_eq v (Parameter s) = (v = PStr s)"
| "py_eq v (Element t) = False"

text \<open>
  \<^verbatim>\<open>
  def remove_task(self, task: str) -> None:
      try:
          self.tasks = [task for task in self.tasks if task.description != task]
      except Exception as error:
          print(colored(f"Error removing task from workflow: {error}", "red"))
  \<close>
  Inside the comprehension \<^verbatim>\<open>task\<close> is the element; the parameter is not read.
\<close>

definition remove_task :: "workflow \<Rightarrow> string \<Rightarrow> workflow \<times> diag option" where
  "remove_task w task_arg =
     (case tasks w of
        None \<Rightarrow> (w, Some (Error_removing_task AttributeError))
      | Some ts \<Rightarrow>
          (w\<lparr>tasks := Some (filter (\<lambda>t. \<not> py_eq (description t) (Element t)) ts)\<rparr>, None))"

text \<open>
  \<^verbatim>\<open>
  def update_task(self, task: str, **updates) -> None:
      try:
          for task in self.tasks:
              if task.description == task:
                  task.kwargs.update(updates)
                  break
          else:
              raise ValueError(f"Task {task} not found in workflow.")
      except Exception as error:
          print(colored(f"Error updating task in workflow: {error}", "red"))
  \<close>
  The updates arrive as keyword arguments. Python binds \<^verbatim>\<open>self\<close> and \<^verbatim>\<open>task\<close>
  first, so a call whose updates have the key \<open>self\<close> or \<open>task\<close> is refused with
  \<open>TypeError\<close> (multiple values for one argument) when the arguments are bound: the
  body and its handler never run, and the exception reaches the caller (\<open>Inl\<close>).
  \<open>dict_update\<close> is \<^verbatim>\<open>kwargs.update(updates)\<close>: only a dictionary has the method.
  \<open>update_loop\<close> is the \<^verbatim>\<open>for ... else\<close>: the \<^verbatim>\<open>else\<close> branch runs when the
  loop ends without \<^verbatim>\<open>break\<close>.
\<close>

fun str_setitem :: "(string \<times> pyval) list \<Rightarrow> string \<Rightarrow> pyval \<Rightarrow> (string \<times> pyval) list" where
  "str_setitem [] k v = [(k, v)]"
| "str_setitem ((k', v') # d) k v =
     (if k' = k then (k', v) # d else (k', v') # str_setitem d k v)"

fun dict_update :: "pyval \<Rightarrow> (string \<times> pyval) list \<Rightarrow> exn + pyval" where
  "dict_update (PDict d) updates = Inr (PDict (fold (\<lambda>(k, v) d'. str_setitem d' k v) updates d))"
| "dict_update v updates = Inl AttributeError"

fun update_loop :: "task list \<Rightarrow> (string \<times> pyval) list \<Rightarrow> exn + task list" where
  "update_loop [] updates = Inl ValueError"
| "update_loop (t # ts) updates =
     (if py_eq (description t) (Element t)
      then (case dict_update (kwargs t) updates of
              Inl e \<Rightarrow> Inl e
            | Inr k \<Rightarrow> Inr (t\<lparr>kwargs := k\<rparr> # ts))
      else (case update_loop ts updates of
              Inl e \<Rightarrow> Inl e
            | Inr ts' \<Rightarrow> Inr (t # ts')))"

definition update_task ::
  "workflow \<Rightarrow> string \<Rightarrow> (string \<times> pyval) list \<Rightarrow> exn + (workflow \<times> diag option)" where
  "update_task w task_arg updates =
     (if ''self'' \<in> set (map fst updates) \<or> ''task'' \<in> set (map fst updates)
      then Inl TypeError
      else Inr (case tasks w of
                  None \<Rightarrow> (w, Some (Error_updating_task AttributeError))
                | Some ts \<Rightarrow>
                    (case update_loop ts updates of
                       Inl e \<Rightarrow> (w, Some (Error_updating_task e))
                     | Inr ts' \<Rightarrow> (w\<lparr>tasks := Some ts'\<rparr>, None))))"

text \<open>
  \<^verbatim>\<open>
  def delete_task(self, task: str) -> None:
      try:
          for task in self.tasks:
              if task.description == task:
                  self.tasks.remove(task)
                  break
          else:
              raise ValueError(f"Task {task} not found in workflow.")
      except Exception as error:
          print(colored(f"Error deleting task from workflow: {error}", "red"))
  \<close>
  \<open>delete_loop all rest\<close> walks \<open>rest\<close>; \<^verbatim>\<open>self.tasks.remove(task)\<close> removes the
  first element of the whole list equal to the current one.
\<close>

fun delete_loop :: "task list \<Rightarrow> task list \<Rightarrow> exn + task list" where
  "delete_loop all [] = Inl ValueError"
| "delete_loop all (t # ts) =
     (if py_eq (description t) (Element t) then Inr (remove1 t all) else delete_loop all ts)"

definition delete_task :: "workflow \<Rightarrow> string \<Rightarrow> workflow \<times> diag option" where
  "delete_task w task_arg =
     (case tasks w of
        None \<Rightarrow> (w, Some (Error_deleting_task AttributeError))
      | Some ts \<Rightarrow>
          (case delete_loop ts ts of
             Inl e \<Rightarrow> (w, Some (Error_deleting_task e))
           | Inr ts' \<Rightarrow> (w\<lparr>tasks := Some ts'\<rparr>, None)))"

section \<open>The state file\<close>

text \<open>
  \<^verbatim>\<open>open\<close>, \<^verbatim>\<open>json.dump\<close> and \<^verbatim>\<open>json.load\<close> belong to Python's library. The
  content of a file is given by what \<^verbatim>\<open>json.load\<close> does with it: it returns a value
  (\<open>Doc\<close>) or it raises (\<open>NotJson\<close>: an empty or half-written file among them). A
  path leads to no file in a directory that exists (\<open>Missing\<close>), to a file, to
  something that cannot be opened (\<open>Denied\<close>), or into a directory that does not exist
  (\<open>No_directory\<close>). Opening the empty path fails; opening for writing creates or
  empties the file, which needs its directory.
\<close>

datatype content = Doc pyval | NotJson

datatype entry = Missing | Regular content | Denied | No_directory

type_synonym filesystem = "string \<Rightarrow> entry"

definition open_read :: "filesystem \<Rightarrow> string \<Rightarrow> exn + content" where
  "open_read fs path =
     (if path = [] then Inl FileNotFoundError
      else case fs path of
        Missing \<Rightarrow> Inl FileNotFoundError
      | No_directory \<Rightarrow> Inl FileNotFoundError
      | Denied \<Rightarrow> Inl PermissionError
      | Regular c \<Rightarrow> Inr c)"

definition open_write :: "filesystem \<Rightarrow> string \<Rightarrow> exn + filesystem" where
  "open_write fs path =
     (if path = [] then Inl FileNotFoundError
      else case fs path of
        Denied \<Rightarrow> Inl PermissionError
      | No_directory \<Rightarrow> Inl FileNotFoundError
      | Missing \<Rightarrow> Inr (fs(path := Regular NotJson))
      | Regular c \<Rightarrow> Inr (fs(path := Regular NotJson)))"

text \<open>
  \<^verbatim>\<open>json.dump\<close> writes the value piece by piece and raises at the first piece it
  cannot write: \<open>TypeError\<close> at an opaque object, \<open>ValueError\<close> at an integer of more
  than 4300 decimal digits (the interpreter's default limit for turning an integer into
  text). \<open>dump_error\<close> is that exception, if any. A value written without one reads
  back as itself.
\<close>

definition too_long :: "int \<Rightarrow> bool" where
  "too_long i = (10 ^ 4300 \<le> \<bar>i\<bar>)"

fun first_error :: "exn option list \<Rightarrow> exn option" where
  "first_error [] = None"
| "first_error (None # es) = first_error es"
| "first_error (Some e # es) = Some e"

fun dump_error :: "pyval \<Rightarrow> exn option" where
  "dump_error (PObj n) = Some TypeError"
| "dump_error (PInt i) = (if too_long i then Some ValueError else None)"
| "dump_error (PList xs) = first_error (map dump_error xs)"
| "dump_error (PDict kvs) = first_error (map (\<lambda>kv. dump_error (snd kv)) kvs)"
| "dump_error v = None"

definition json_load :: "content \<Rightarrow> exn + pyval" where
  "json_load c = (case c of Doc v \<Rightarrow> Inr v | NotJson \<Rightarrow> Inl JSONDecodeError)"

text \<open>
  \<^verbatim>\<open>filepath = filepath or self.saved_state_filepath\<close>: \<open>None\<close> and the empty string
  are falsy, and then the attribute is read.
\<close>

definition path_or :: "string option \<Rightarrow> string option \<Rightarrow> exn + string" where
  "path_or filepath attribute =
     (case filepath of
        Some (c # cs) \<Rightarrow> Inr (c # cs)
      | _ \<Rightarrow> (case attribute of None \<Rightarrow> Inl AttributeError | Some p \<Rightarrow> Inr p))"

section \<open>save_workflow_state\<close>

text \<open>
  \<^verbatim>\<open>
  def save_workflow_state(self, filepath="sequential_workflow_state.json", **kwargs):
      try:
          filepath = filepath or self.saved_state_filepath
          with open(filepath, "w") as f:
              state = {
                  "tasks": [
                      {"description": task.description, "args": task.args,
                       "kwargs": task.kwargs, "result": task.result,
                       "history": task.history}
                      for task in self.tasks
                  ],
                  "max_loops": self.max_loops,
              }
              json.dump(state, f, indent=4)
      except Exception as error:
          print(colored(f"Error saving workflow state: {error}", "red"))
  \<close>
  The file is opened (and emptied) before the state is built, so every later failure
  leaves a file that is empty or half-written. The agent of a task is not written.
\<close>

definition task_state :: "task \<Rightarrow> pyval" where
  "task_state t =
     PDict [(''description'', description t), (''args'', args t), (''kwargs'', kwargs t),
            (''result'', result t), (''history'', history t)]"

definition workflow_state :: "task list \<Rightarrow> pyval \<Rightarrow> pyval" where
  "workflow_state ts ml = PDict [(''tasks'', PList (map task_state ts)), (''max_loops'', ml)]"

definition save_workflow_state ::
  "workflow \<Rightarrow> filesystem \<Rightarrow> string option \<Rightarrow> filesystem \<times> diag option" where
  "save_workflow_state w fs filepath =
     (case path_or filepath (saved_state_filepath w) of
        Inl e \<Rightarrow> (fs, Some (Error_saving_workflow_state e))
      | Inr path \<Rightarrow>
          (case open_write fs path of
             Inl e \<Rightarrow> (fs, Some (Error_saving_workflow_state e))
           | Inr fs1 \<Rightarrow>
               (case tasks w of
                  None \<Rightarrow> (fs1, Some (Error_saving_workflow_state AttributeError))
                | Some ts \<Rightarrow>
                    (case max_loops w of
                       None \<Rightarrow> (fs1, Some (Error_saving_workflow_state AttributeError))
                     | Some ml \<Rightarrow>
                         (case dump_error (workflow_state ts ml) of
                            Some e \<Rightarrow> (fs1, Some (Error_saving_workflow_state e))
                          | None \<Rightarrow>
                              (fs1(path := Regular (Doc (workflow_state ts ml))), None))))))"

section \<open>load_workflow_state\<close>

text \<open>
  \<^verbatim>\<open>
  def load_workflow_state(self, filepath: str = None, **kwargs) -> None:
      try:
          filepath = filepath or self.restore_state_filepath
          with open(filepath, "r") as f:
              state = json.load(f)
              self.max_loops = state["max_loops"]
              self.tasks = []
              for task_state in state["tasks"]:
                  task = Task(
                      description=task_state["description"],
                      agent=task_state["agent"],
                      args=task_state["args"],
                      kwargs=task_state["kwargs"],
                      result=task_state["result"],
                      history=task_state["history"],
                  )
                  self.tasks.append(task)
      except Exception as error:
          print(colored(f"Error loading workflow state: {error}", "red"))
  \<close>
  \<open>getitem v k\<close> is \<^verbatim>\<open>v["k"]\<close> for a string key: a dictionary raises \<open>KeyError\<close> when
  the key is missing, every other value of \<open>pyval\<close> raises \<open>TypeError\<close>. \<open>iterate\<close> is
  what a \<^verbatim>\<open>for\<close> loop runs over: the elements of a list, the keys of a dictionary,
  the characters of a string; nothing else is iterable.
\<close>

fun getitem :: "pyval \<Rightarrow> string \<Rightarrow> exn + pyval" where
  "getitem (PDict kvs) k = (case map_of kvs k of None \<Rightarrow> Inl (KeyError k) | Some v \<Rightarrow> Inr v)"
| "getitem v k = Inl TypeError"

fun iterate :: "pyval \<Rightarrow> exn + pyval list" where
  "iterate (PList xs) = Inr xs"
| "iterate (PDict kvs) = Inr (map (\<lambda>kv. PStr (fst kv)) kvs)"
| "iterate (PStr s) = Inr (map (\<lambda>c. PStr [c]) s)"
| "iterate v = Inl TypeError"

text \<open>\<open>bind\<close> passes an exception on and otherwise continues with the value.\<close>

definition bind :: "exn + 'a \<Rightarrow> ('a \<Rightarrow> exn + 'b) \<Rightarrow> exn + 'b" where
  "bind m f = (case m of Inl e \<Rightarrow> Inl e | Inr x \<Rightarrow> f x)"

text \<open>The arguments of the \<^verbatim>\<open>Task(...)\<close> call are evaluated in the order written.\<close>

definition task_of_state :: "pyval \<Rightarrow> exn + task" where
  "task_of_state st =
     bind (getitem st ''description'') (\<lambda>d.
     bind (getitem st ''agent'') (\<lambda>ag.
     bind (getitem st ''args'') (\<lambda>ar.
     bind (getitem st ''kwargs'') (\<lambda>kw.
     bind (getitem st ''result'') (\<lambda>r.
     bind (getitem st ''history'') (\<lambda>h.
       Inr \<lparr>description = d, agent = ag, args = ar, kwargs = kw,
            result = r, history = h\<rparr>))))))"

text \<open>
  The loop appends to \<^verbatim>\<open>self.tasks\<close> as it goes: when a record fails, the tasks built
  so far stay. \<open>load_loop acc sts\<close> returns the list reached and the exception, if any.
\<close>

fun load_loop :: "task list \<Rightarrow> pyval list \<Rightarrow> task list \<times> exn option" where
  "load_loop acc [] = (acc, None)"
| "load_loop acc (st # sts) =
     (case task_of_state st of
        Inl e \<Rightarrow> (acc, Some e)
      | Inr t \<Rightarrow> load_loop (acc @ [t]) sts)"

text \<open>\<open>read_state\<close> is the part of the body that runs before anything is assigned.\<close>

definition read_state :: "workflow \<Rightarrow> filesystem \<Rightarrow> string option \<Rightarrow> exn + pyval" where
  "read_state w fs filepath =
     bind (path_or filepath (restore_state_filepath w)) (\<lambda>path.
     bind (open_read fs path) json_load)"

text \<open>
  \<open>restore\<close> is the rest of the body: it assigns \<^verbatim>\<open>self.max_loops\<close>, then
  \<^verbatim>\<open>self.tasks = []\<close>, then runs the loop. It returns the workflow reached and the
  exception that ended it, if any.
\<close>

definition restore :: "workflow \<Rightarrow> pyval \<Rightarrow> workflow \<times> exn option" where
  "restore w state =
     (case getitem state ''max_loops'' of
        Inl e \<Rightarrow> (w, Some e)
      | Inr ml \<Rightarrow>
          (case bind (getitem state ''tasks'') iterate of
             Inl e \<Rightarrow> (w\<lparr>max_loops := Some ml, tasks := Some []\<rparr>, Some e)
           | Inr recs \<Rightarrow>
               (w\<lparr>max_loops := Some ml, tasks := Some (fst (load_loop [] recs))\<rparr>,
                snd (load_loop [] recs))))"

definition load_workflow_state ::
  "workflow \<Rightarrow> filesystem \<Rightarrow> string option \<Rightarrow> workflow \<times> diag option" where
  "load_workflow_state w fs filepath =
     (case read_state w fs filepath of
        Inl e \<Rightarrow> (w, Some (Error_loading_workflow_state e))
      | Inr state \<Rightarrow>
          (fst (restore w state), map_option Error_loading_workflow_state (snd (restore w state))))"

section \<open>extract_tool_commands\<close>

text \<open>
  From \<^verbatim>\<open>swarms/tools/tool_utils.py\<close>:
  \<^verbatim>\<open>
  def extract_tool_commands(text: str):
      pattern = r"[fence]json(.+?)[fence]"      # [fence] is three backquotes
      matches = re.findall(pattern, text, re.DOTALL)
      json_commands = []
      for match in matches:
          try:
              json_commands = json.loads(match)
              json_commands.append(json_commands)
          except Exception as error:
              print(f"Error parsing JSON command: {error}")
  \<close>
  \<open>findall\<close> is \<^verbatim>\<open>re.findall\<close> for this pattern: matches are looked for from left to
  right and do not overlap; the group is lazy and not empty, so it ends at the first
  closing fence that follows at least one character; the list holds the groups.
\<close>

definition fence :: string where
  "fence = [CHR 0x60, CHR 0x60, CHR 0x60]"

definition opener :: string where
  "opener = fence @ ''json''"

fun until_fence :: "string \<Rightarrow> string option" where
  "until_fence [] = None"
| "until_fence (c # cs) =
     (if take (length fence) (c # cs) = fence then Some []
      else map_option ((#) c) (until_fence cs))"

definition match_at :: "string \<Rightarrow> string option" where
  "match_at s =
     (if take (length opener) s = opener
      then (case drop (length opener) s of
              [] \<Rightarrow> None
            | c # cs \<Rightarrow> map_option ((#) c) (until_fence cs))
      else None)"

text \<open>
  \<open>findall_skip n s\<close> drops \<open>n\<close> characters (the rest of the last match) and then scans.
  A match with group \<open>g\<close> is \<open>length opener + length g + length fence\<close> characters long.
\<close>

fun findall_skip :: "nat \<Rightarrow> string \<Rightarrow> string list" where
  "findall_skip n [] = []"
| "findall_skip (Suc n) (c # cs) = findall_skip n cs"
| "findall_skip 0 (c # cs) =
     (case match_at (c # cs) of
        None \<Rightarrow> findall_skip 0 cs
      | Some g \<Rightarrow> g # findall_skip (length opener + length g + length fence - 1) cs)"

definition findall :: "string \<Rightarrow> string list" where
  "findall text = findall_skip 0 text"

text \<open>
  \<^verbatim>\<open>json.loads\<close> is a parameter of the model (\<open>loads\<close>). The parsed value is assigned
  to \<^verbatim>\<open>json_commands\<close> itself, and \<^verbatim>\<open>append\<close> is then called on that value: only a
  list has the method (it is appended to itself), every other value raises
  \<open>AttributeError\<close>. The variable is never read again, so the loop is modelled by the
  lines it prints. The function has no \<^verbatim>\<open>return\<close> statement: it returns \<open>None\<close>.
\<close>

fun append_self :: "pyval \<Rightarrow> exn + unit" where
  "append_self (PList xs) = Inr ()"
| "append_self v = Inl AttributeError"

fun parse_loop :: "(string \<Rightarrow> exn + pyval) \<Rightarrow> string list \<Rightarrow> exn list" where
  "parse_loop loads [] = []"
| "parse_loop loads (m # ms) =
     (case bind (loads m) append_self of
        Inl e \<Rightarrow> e # parse_loop loads ms
      | Inr u \<Rightarrow> parse_loop loads ms)"

definition extract_tool_commands :: "(string \<Rightarrow> exn + pyval) \<Rightarrow> string \<Rightarrow> pyval \<times> exn list" where
  "extract_tool_commands loads text = (PNone, parse_loop loads (findall text))"

section \<open>The workflow with shared objects\<close>

text \<open>
  A Python list holds references. \<^verbatim>\<open>add\<close> stores the Task object it is given and
  \<^verbatim>\<open>reset\<close> assigns to the Task objects of \<^verbatim>\<open>self.tasks\<close> in place, so a Task
  that both lists hold changes for both. The two attributes can also be bound to one
  list object (after \<^verbatim>\<open>workflow.tasks = workflow.task_pool\<close>), and then what is
  appended to the one is in the other. This section models the methods once more with
  that identity, for the claim that compares the two attributes. A Task object is a
  number; \<open>objects\<close> gives the Task each number stands for, and the objects numbered
  below \<open>allocated\<close> are the ones that exist (a program never holds a reference to
  another). \<^verbatim>\<open>self.task_pool\<close> is a list of such references; \<^verbatim>\<open>self.tasks\<close>
  does not exist, or is the very list object of \<^verbatim>\<open>self.task_pool\<close>, or is a list of
  its own.
\<close>

datatype tasks_attribute = No_attribute | The_task_pool | Own_list "nat list"

record object_workflow =
  objects :: "nat \<Rightarrow> task"
  allocated :: nat
  pool_refs :: "nat list"
  tasks_attr :: tasks_attribute
  loops_attr :: "pyval option"
  saved_path_attr :: "string option"
  restore_path_attr :: "string option"

text \<open>The references \<^verbatim>\<open>self.tasks\<close> holds, if the attribute exists.\<close>

definition tasks_refs :: "object_workflow \<Rightarrow> nat list option" where
  "tasks_refs s =
     (case tasks_attr s of
        No_attribute \<Rightarrow> None
      | The_task_pool \<Rightarrow> Some (pool_refs s)
      | Own_list rs \<Rightarrow> Some rs)"

text \<open>
  What a method sees when it only reads: the workflow of the first model, with every
  reference replaced by the Task it stands for.
\<close>

definition view :: "object_workflow \<Rightarrow> workflow" where
  "view s =
     \<lparr>task_pool = map (objects s) (pool_refs s),
      tasks = map_option (map (objects s)) (tasks_refs s),
      max_loops = loops_attr s,
      saved_state_filepath = saved_path_attr s,
      restore_state_filepath = restore_path_attr s\<rparr>"

text \<open>
  \<^verbatim>\<open>add\<close> appends references to the list object of \<^verbatim>\<open>self.task_pool\<close>, in place.
\<close>

definition add_obj ::
  "object_workflow \<Rightarrow> nat option \<Rightarrow> nat list option \<Rightarrow> exn + object_workflow" where
  "add_obj s task_arg tasks_arg =
     (case task_arg of
        Some r \<Rightarrow> Inr (s\<lparr>pool_refs := pool_refs s @ [r]\<rparr>)
      | None \<Rightarrow>
          (case tasks_arg of
             Some (x # xs) \<Rightarrow> Inr (s\<lparr>pool_refs := pool_refs s @ (x # xs)\<rparr>)
           | Some [] \<Rightarrow> Inl ValueError
           | None \<Rightarrow> Inl ValueError))"

text \<open>
  \<^verbatim>\<open>reset\<close> runs over the references of \<^verbatim>\<open>self.tasks\<close> and assigns to the result
  of each object.
\<close>

fun clear_results :: "nat list \<Rightarrow> (nat \<Rightarrow> task) \<Rightarrow> (nat \<Rightarrow> task)" where
  "clear_results [] os = os"
| "clear_results (r # rs) os = clear_results rs (os(r := (os r)\<lparr>result := PNone\<rparr>))"

definition reset_obj :: "object_workflow \<Rightarrow> object_workflow \<times> diag option" where
  "reset_obj s =
     (case tasks_refs s of
        None \<Rightarrow> (s, Some (Error_resetting_workflow AttributeError))
      | Some rs \<Rightarrow> (s\<lparr>objects := clear_results rs (objects s)\<rparr>, None))"

text \<open>
  \<^verbatim>\<open>get_task_results\<close> and \<^verbatim>\<open>save_workflow_state\<close> only read: they do with what
  they see what the first model says.
\<close>

definition get_task_results_obj ::
  "object_workflow \<Rightarrow> (pyval \<times> pyval) list option \<times> diag option" where
  "get_task_results_obj s = get_task_results (view s)"

definition save_workflow_state_obj ::
  "object_workflow \<Rightarrow> filesystem \<Rightarrow> string option \<Rightarrow> filesystem \<times> diag option" where
  "save_workflow_state_obj s fs filepath = save_workflow_state (view s) fs filepath"

text \<open>
  \<^verbatim>\<open>remove_task\<close> binds \<^verbatim>\<open>self.tasks\<close> to a new list, the one its comprehension
  builds.
\<close>

definition remove_task_obj :: "object_workflow \<Rightarrow> string \<Rightarrow> object_workflow \<times> diag option" where
  "remove_task_obj s task_arg =
     (case tasks_refs s of
        None \<Rightarrow> (s, Some (Error_removing_task AttributeError))
      | Some rs \<Rightarrow>
          (s\<lparr>tasks_attr :=
               Own_list (filter (\<lambda>r. \<not> py_eq (description (objects s r)) (Element (objects s r)))
                           rs)\<rparr>,
           None))"

text \<open>
  \<^verbatim>\<open>update_task\<close> would update the kwargs of the object it finds, in place.
\<close>

fun update_loop_obj ::
  "(nat \<Rightarrow> task) \<Rightarrow> nat list \<Rightarrow> (string \<times> pyval) list \<Rightarrow> exn + (nat \<Rightarrow> task)" where
  "update_loop_obj os [] updates = Inl ValueError"
| "update_loop_obj os (r # rs) updates =
     (if py_eq (description (os r)) (Element (os r))
      then (case dict_update (kwargs (os r)) updates of
              Inl e \<Rightarrow> Inl e
            | Inr k \<Rightarrow> Inr (os(r := (os r)\<lparr>kwargs := k\<rparr>)))
      else update_loop_obj os rs updates)"

definition update_task_obj ::
  "object_workflow \<Rightarrow> string \<Rightarrow> (string \<times> pyval) list \<Rightarrow>
     exn + (object_workflow \<times> diag option)" where
  "update_task_obj s task_arg updates =
     (if ''self'' \<in> set (map fst updates) \<or> ''task'' \<in> set (map fst updates)
      then Inl TypeError
      else Inr (case tasks_refs s of
                  None \<Rightarrow> (s, Some (Error_updating_task AttributeError))
                | Some rs \<Rightarrow>
                    (case update_loop_obj (objects s) rs updates of
                       Inl e \<Rightarrow> (s, Some (Error_updating_task e))
                     | Inr os \<Rightarrow> (s\<lparr>objects := os\<rparr>, None))))"

text \<open>
  \<^verbatim>\<open>delete_task\<close> would call \<^verbatim>\<open>self.tasks.remove(task)\<close>, which takes the first
  element equal to the Task out of the list object itself: \<open>store_tasks\<close> puts the new
  content into the list \<^verbatim>\<open>self.tasks\<close> is bound to.
\<close>

fun remove_equal :: "(nat \<Rightarrow> task) \<Rightarrow> task \<Rightarrow> nat list \<Rightarrow> nat list" where
  "remove_equal os t [] = []"
| "remove_equal os t (r # rs) = (if os r = t then rs else r # remove_equal os t rs)"

fun delete_loop_obj :: "(nat \<Rightarrow> task) \<Rightarrow> nat list \<Rightarrow> nat list \<Rightarrow> exn + nat list" where
  "delete_loop_obj os all [] = Inl ValueError"
| "delete_loop_obj os all (r # rs) =
     (if py_eq (description (os r)) (Element (os r))
      then Inr (remove_equal os (os r) all)
      else delete_loop_obj os all rs)"

definition store_tasks :: "object_workflow \<Rightarrow> nat list \<Rightarrow> object_workflow" where
  "store_tasks s rs =
     (case tasks_attr s of
        The_task_pool \<Rightarrow> s\<lparr>pool_refs := rs\<rparr>
      | No_attribute \<Rightarrow> s\<lparr>tasks_attr := Own_list rs\<rparr>
      | Own_list old \<Rightarrow> s\<lparr>tasks_attr := Own_list rs\<rparr>)"

definition delete_task_obj :: "object_workflow \<Rightarrow> string \<Rightarrow> object_workflow \<times> diag option" where
  "delete_task_obj s task_arg =
     (case tasks_refs s of
        None \<Rightarrow> (s, Some (Error_deleting_task AttributeError))
      | Some rs \<Rightarrow>
          (case delete_loop_obj (objects s) rs rs of
             Inl e \<Rightarrow> (s, Some (Error_deleting_task e))
           | Inr rs' \<Rightarrow> (store_tasks s rs', None)))"

text \<open>
  \<^verbatim>\<open>load_workflow_state\<close> binds \<^verbatim>\<open>self.tasks\<close> to a new empty list, and every
  \<^verbatim>\<open>Task(...)\<close> it evaluates is a new object, appended to that list: the tasks the
  loop has built become the objects numbered from \<open>allocated\<close> on, in order.
\<close>

fun new_objects :: "task list \<Rightarrow> nat \<Rightarrow> (nat \<Rightarrow> task) \<Rightarrow> (nat \<Rightarrow> task)" where
  "new_objects [] n os = os"
| "new_objects (t # ts) n os = new_objects ts (Suc n) (os(n := t))"

definition restore_obj :: "object_workflow \<Rightarrow> pyval \<Rightarrow> object_workflow \<times> exn option" where
  "restore_obj s state =
     (case getitem state ''max_loops'' of
        Inl e \<Rightarrow> (s, Some e)
      | Inr ml \<Rightarrow>
          (case bind (getitem state ''tasks'') iterate of
             Inl e \<Rightarrow> (s\<lparr>loops_attr := Some ml, tasks_attr := Own_list []\<rparr>, Some e)
           | Inr recs \<Rightarrow>
               (s\<lparr>loops_attr := Some ml,
                  tasks_attr :=
                    Own_list [allocated s ..< allocated s + length (fst (load_loop [] recs))],
                  objects := new_objects (fst (load_loop [] recs)) (allocated s) (objects s),
                  allocated := allocated s + length (fst (load_loop [] recs))\<rparr>,
                snd (load_loop [] recs))))"

definition load_workflow_state_obj ::
  "object_workflow \<Rightarrow> filesystem \<Rightarrow> string option \<Rightarrow> object_workflow \<times> diag option" where
  "load_workflow_state_obj s fs filepath =
     (case read_state (view s) fs filepath of
        Inl e \<Rightarrow> (s, Some (Error_loading_workflow_state e))
      | Inr state \<Rightarrow>
          (fst (restore_obj s state),
           map_option Error_loading_workflow_state (snd (restore_obj s state))))"

section \<open>Example inputs\<close>

definition fetch_weather :: task where
  "fetch_weather =
     \<lparr>description = PStr ''fetch-weather'', agent = PObj 0, args = PList [],
      kwargs = PDict [], result = PStr ''done:fetch-weather'',
      history = PList [PStr ''pass 1'']\<rparr>"

definition build_report :: task where
  "build_report =
     \<lparr>description = PStr ''build-report'', agent = PObj 0, args = PList [PInt 1],
      kwargs = PDict [(''style'', PStr ''short'')], result = PNone, history = PList []\<rparr>"

definition example_workflow :: workflow where
  "example_workflow =
     \<lparr>task_pool = [], tasks = Some [fetch_weather, build_report], max_loops = Some (PInt 2),
      saved_state_filepath = None, restore_state_filepath = None\<rparr>"

definition empty_fs :: filesystem where
  "empty_fs = (\<lambda>p. Missing)"

text \<open>The file system after the example workflow has saved its state.\<close>

definition saved_fs :: filesystem where
  "saved_fs = fst (save_workflow_state example_workflow empty_fs (Some ''state.json''))"

text \<open>A workflow in memory that differs from the saved one in its pool and its loop count.\<close>

definition stale_workflow :: workflow where
  "stale_workflow =
     \<lparr>task_pool = [], tasks = Some [build_report], max_loops = Some (PInt 7),
      saved_state_filepath = None, restore_state_filepath = None\<rparr>"

text \<open>
  A state file written by hand: its first task record has all six fields, its second
  one has no \<open>agent\<close>.
\<close>

definition full_record :: pyval where
  "full_record =
     PDict [(''description'', PStr ''fetch-weather''), (''agent'', PNone),
            (''args'', PList []), (''kwargs'', PDict []), (''result'', PNone),
            (''history'', PList [])]"

definition partial_fs :: filesystem where
  "partial_fs =
     empty_fs(''state.json'' :=
       Regular (Doc (PDict [(''max_loops'', PInt 5),
                            (''tasks'', PList [full_record, task_state build_report])])))"

text \<open>A state file whose document has no \<open>max_loops\<close>.\<close>

definition no_loops_fs :: filesystem where
  "no_loops_fs = empty_fs(''state.json'' := Regular (Doc (PDict [(''tasks'', PList [])])))"

text \<open>
  The example workflow with its objects: two Task objects, both in the list of its own
  that \<^verbatim>\<open>self.tasks\<close> is bound to, and an empty \<^verbatim>\<open>task_pool\<close>.
\<close>

definition example_objects :: object_workflow where
  "example_objects =
     \<lparr>objects = (\<lambda>r. if r = 0 then fetch_weather else build_report), allocated = 2,
      pool_refs = [], tasks_attr = Own_list [0, 1], loops_attr = Some (PInt 2),
      saved_path_attr = None, restore_path_attr = None\<rparr>"

text \<open>A file that cannot be opened, and a file that is not JSON.\<close>

definition denied_fs :: filesystem where
  "denied_fs = empty_fs(''state.json'' := Denied)"

definition garbage_fs :: filesystem where
  "garbage_fs = empty_fs(''state.json'' := Regular NotJson)"

text \<open>A state file whose \<open>tasks\<close> entry is a number.\<close>

definition no_list_fs :: filesystem where
  "no_list_fs =
     empty_fs(''state.json'' :=
       Regular (Doc (PDict [(''max_loops'', PInt 5), (''tasks'', PInt 3)])))"

text \<open>A state file without \<open>tasks\<close>, and one whose only task record has all six fields.\<close>

definition no_tasks_fs :: filesystem where
  "no_tasks_fs = empty_fs(''state.json'' := Regular (Doc (PDict [(''max_loops'', PInt 5)])))"

definition full_fs :: filesystem where
  "full_fs =
     empty_fs(''state.json'' :=
       Regular (Doc (PDict [(''max_loops'', PInt 5), (''tasks'', PList [full_record])])))"

text \<open>The same objects, with only the second one in \<^verbatim>\<open>self.tasks\<close>.\<close>

definition second_only :: object_workflow where
  "second_only = example_objects\<lparr>tasks_attr := Own_list [1]\<rparr>"

text \<open>A text with one well-formed fenced block and one malformed one.\<close>

definition two_blocks :: string where
  "two_blocks =
     fence @ ''json{'' @ [CHR 0x22] @ ''tool'' @ [CHR 0x22] @ '': 1}'' @ fence @
     '' then '' @ fence @ ''json{broken'' @ fence"

section \<open>Small integers\<close>

lemma not_too_long: "\<bar>i\<bar> < 10 \<Longrightarrow> \<not> too_long i"
  unfolding too_long_def using self_le_power [of "10::int" 4300] by linarith

section \<open>The shadowed loop variable\<close>

text \<open>
  Since the comparison in the three loops never holds, \<^verbatim>\<open>update_task\<close> and
  \<^verbatim>\<open>delete_task\<close> always reach their \<^verbatim>\<open>else\<close> branch and \<^verbatim>\<open>remove_task\<close> keeps
  every task.
\<close>

lemma update_loop_fails: "update_loop ts updates = Inl ValueError"
  by (induction ts) simp_all

lemma delete_loop_fails: "delete_loop all ts = Inl ValueError"
  by (induction ts) simp_all

lemma update_task_unchanged:
  "update_task w d u =
     (if ''self'' \<in> set (map fst u) \<or> ''task'' \<in> set (map fst u) then Inl TypeError
      else Inr (w, Some (Error_updating_task
                           (if tasks w = None then AttributeError else ValueError))))"
  by (simp add: update_task_def update_loop_fails split: option.split)

lemma delete_task_unchanged:
  "delete_task w d =
     (w, Some (Error_deleting_task (if tasks w = None then AttributeError else ValueError)))"
  by (simp add: delete_task_def delete_loop_fails split: option.split)

lemma remove_task_unchanged:
  "remove_task w d =
     (w, if tasks w = None then Some (Error_removing_task AttributeError) else None)"
  by (auto simp add: remove_task_def split: option.split)

section \<open>The loop of the loader\<close>

text \<open>
  The loop rebuilds the records in order and stops at the first one it cannot rebuild:
  the tasks it leaves are those of the records before that one.
\<close>

lemma load_loop_prefix:
  "\<exists>good. fst (load_loop acc recs) = acc @ good \<and> length good \<le> length recs \<and>
     (\<forall>i<length good. task_of_state (recs ! i) = Inr (good ! i)) \<and>
     (case snd (load_loop acc recs) of
        None \<Rightarrow> length good = length recs
      | Some e \<Rightarrow> length good < length recs \<and> task_of_state (recs ! length good) = Inl e)"
proof (induction recs arbitrary: acc)
  case Nil
  then show ?case by simp
next
  case (Cons st sts)
  show ?case
  proof (cases "task_of_state st")
    case (Inl e)
    then show ?thesis by simp
  next
    case (Inr t)
    from Cons.IH [of "acc @ [t]"] obtain good where
      g: "fst (load_loop (acc @ [t]) sts) = (acc @ [t]) @ good" "length good \<le> length sts"
         "\<forall>i<length good. task_of_state (sts ! i) = Inr (good ! i)"
         "case snd (load_loop (acc @ [t]) sts) of
            None \<Rightarrow> length good = length sts
          | Some e \<Rightarrow> length good < length sts \<and> task_of_state (sts ! length good) = Inl e"
      by blast
    have "\<forall>i<length (t # good). task_of_state ((st # sts) ! i) = Inr ((t # good) ! i)"
      using g(3) Inr by (auto simp: nth_Cons split: nat.splits)
    with g Inr show ?thesis
      by (intro exI [of _ "t # good"]) (auto split: option.splits)
  qed
qed

section \<open>Loading what was saved\<close>

text \<open>
  The record \<^verbatim>\<open>save_workflow_state\<close> writes for a task cannot be rebuilt by the
  loader. So a saved pool that is not empty comes back empty, with the error printed;
  only the empty pool comes back as it was.
\<close>

lemma task_state_not_rebuilt: "task_of_state (task_state t) = Inl (KeyError ''agent'')"
  by (simp add: task_of_state_def task_state_def bind_def)

lemma save_writes_state:
  assumes "save_workflow_state w fs (Some (c # cs)) = (fs', None)"
  shows "\<exists>ts ml. tasks w = Some ts \<and> max_loops w = Some ml \<and>
           fs' (c # cs) = Regular (Doc (workflow_state ts ml))"
  using assms
  by (auto simp add: save_workflow_state_def path_or_def open_write_def
      split: entry.splits option.splits if_splits)

lemma load_saved_nonempty:
  assumes "save_workflow_state w fs (Some (c # cs)) = (fs', None)"
    and "tasks w = Some (t # ts)"
  shows "load_workflow_state w fs' (Some (c # cs)) =
           (w\<lparr>tasks := Some []\<rparr>, Some (Error_loading_workflow_state (KeyError ''agent'')))"
proof -
  from save_writes_state [OF assms(1)] assms(2) obtain ml where
    ml: "max_loops w = Some ml" and
    f: "fs' (c # cs) = Regular (Doc (workflow_state (t # ts) ml))"
    by auto
  have r: "read_state w fs' (Some (c # cs)) = Inr (workflow_state (t # ts) ml)"
    using f by (simp add: read_state_def path_or_def open_read_def json_load_def bind_def)
  have "restore w (workflow_state (t # ts) ml) =
          (w\<lparr>max_loops := Some ml, tasks := Some []\<rparr>, Some (KeyError ''agent''))"
    by (simp add: restore_def workflow_state_def bind_def task_state_not_rebuilt)
  moreover have "w\<lparr>max_loops := Some ml, tasks := Some []\<rparr> = w\<lparr>tasks := Some []\<rparr>"
    using ml by simp
  ultimately show ?thesis
    using r by (simp add: load_workflow_state_def)
qed

lemma load_saved_empty:
  assumes "save_workflow_state w fs (Some (c # cs)) = (fs', None)"
    and "tasks w = Some []"
  shows "load_workflow_state w fs' (Some (c # cs)) = (w, None)"
proof -
  from save_writes_state [OF assms(1)] assms(2) obtain ml where
    ml: "max_loops w = Some ml" and
    f: "fs' (c # cs) = Regular (Doc (workflow_state [] ml))"
    by auto
  have r: "read_state w fs' (Some (c # cs)) = Inr (workflow_state [] ml)"
    using f by (simp add: read_state_def path_or_def open_read_def json_load_def bind_def)
  have "restore w (workflow_state [] ml) =
          (w\<lparr>max_loops := Some ml, tasks := Some []\<rparr>, None)"
    by (simp add: restore_def workflow_state_def bind_def)
  moreover have "w\<lparr>max_loops := Some ml, tasks := Some []\<rparr> = w"
    using ml assms(2) by simp
  ultimately show ?thesis
    using r by (simp add: load_workflow_state_def)
qed

section \<open>The value extract_tool_commands returns\<close>

lemma extract_tool_commands_None: "fst (extract_tool_commands loads text) = PNone"
  by (simp add: extract_tool_commands_def)

section \<open>Shared objects\<close>

text \<open>
  The two models agree on the list of \<^verbatim>\<open>self.tasks\<close>: what a method of the model
  with objects leaves there and prints is, seen through the references, what the method
  of the first model leaves and prints. The model with objects adds what the other
  list sees. A Task that \<^verbatim>\<open>add\<close> has put into \<^verbatim>\<open>task_pool\<close> and that
  \<^verbatim>\<open>self.tasks\<close> holds too is reset for both, and when the two attributes are one
  list object, what \<^verbatim>\<open>add\<close> appends is in \<^verbatim>\<open>self.tasks\<close>.
  \<^verbatim>\<open>load_workflow_state\<close> leaves the objects that exist as they are.
\<close>

lemma update_loop_obj_fails: "update_loop_obj os rs updates = Inl ValueError"
  by (induction rs) simp_all

lemma delete_loop_obj_fails: "delete_loop_obj os all rs = Inl ValueError"
  by (induction rs) simp_all

lemma clear_results_eq:
  "clear_results rs os = (\<lambda>r. if r \<in> set rs then (os r)\<lparr>result := PNone\<rparr> else os r)"
  by (induction rs arbitrary: os) (auto simp add: fun_eq_iff)

lemma reset_obj_view:
  "tasks (view (fst (reset_obj s))) = tasks (fst (reset (view s))) \<and>
   snd (reset_obj s) = snd (reset (view s))"
  by (cases "tasks_attr s")
    (simp_all add: reset_obj_def reset_def view_def tasks_refs_def clear_results_eq)

lemma add_obj_shared_list:
  "tasks_attr s = The_task_pool \<Longrightarrow>
     add_obj s (Some r) b = Inr (s\<lparr>pool_refs := pool_refs s @ [r]\<rparr>) \<and>
     tasks_refs (s\<lparr>pool_refs := pool_refs s @ [r]\<rparr>) = Some (pool_refs s @ [r])"
  by (simp add: add_obj_def tasks_refs_def)

lemma reset_reaches_shared_task:
  "add_obj example_objects (Some 0) None = Inr (example_objects\<lparr>pool_refs := [0]\<rparr>) \<and>
   result (objects (example_objects\<lparr>pool_refs := [0]\<rparr>) 0) = PStr ''done:fetch-weather'' \<and>
   pool_refs (fst (reset_obj (example_objects\<lparr>pool_refs := [0]\<rparr>))) = [0] \<and>
   result (objects (fst (reset_obj (example_objects\<lparr>pool_refs := [0]\<rparr>))) 0) = PNone"
  by (simp add: add_obj_def example_objects_def reset_obj_def tasks_refs_def fetch_weather_def)

lemma new_objects_keeps: "r < n \<Longrightarrow> new_objects ts n os r = os r"
  by (induction ts arbitrary: n os) simp_all

lemma restore_obj_keeps_objects:
  "r < allocated s \<Longrightarrow> objects (fst (restore_obj s state)) r = objects s r"
  by (simp add: restore_obj_def new_objects_keeps split: sum.split)

lemma new_objects_map: "map (new_objects ts n os) [n ..< n + length ts] = ts"
proof (induction ts arbitrary: n os)
  case Nil
  then show ?case by simp
next
  case (Cons t ts)
  have "[n ..< n + length (t # ts)] = n # [Suc n ..< n + length (t # ts)]"
    by (rule upt_conv_Cons) simp
  moreover have "n + length (t # ts) = Suc n + length ts"
    by simp
  ultimately have e: "[n ..< n + length (t # ts)] = n # [Suc n ..< Suc n + length ts]"
    by (simp only:)
  have ih: "map (new_objects ts (Suc n) (os(n := t))) [Suc n ..< Suc n + length ts] = ts"
    by (rule Cons.IH)
  have hd: "new_objects ts (Suc n) (os(n := t)) n = t"
    by (simp add: new_objects_keeps)
  show ?case
    by (simp only: e new_objects.simps list.map hd ih)
qed

lemma remove_task_obj_view:
  "tasks (view (fst (remove_task_obj s d))) = tasks (fst (remove_task (view s) d)) \<and>
   snd (remove_task_obj s d) = snd (remove_task (view s) d)"
  by (cases "tasks_refs s")
    (simp_all add: remove_task_obj_def remove_task_def view_def tasks_refs_def)

lemma update_task_obj_view:
  "map_sum id (\<lambda>r. (tasks (view (fst r)), snd r)) (update_task_obj s d u) =
   map_sum id (\<lambda>r. (tasks (fst r), snd r)) (update_task (view s) d u)"
  by (cases "tasks_refs s")
    (simp_all add: update_task_obj_def update_task_def update_loop_obj_fails update_loop_fails
      view_def)

lemma delete_task_obj_view:
  "tasks (view (fst (delete_task_obj s d))) = tasks (fst (delete_task (view s) d)) \<and>
   snd (delete_task_obj s d) = snd (delete_task (view s) d)"
  by (cases "tasks_refs s")
    (simp_all add: delete_task_obj_def delete_task_def delete_loop_obj_fails delete_loop_fails
      view_def)

lemma restore_obj_view:
  "tasks (view (fst (restore_obj s st))) = tasks (fst (restore (view s) st)) \<and>
   max_loops (view (fst (restore_obj s st))) = max_loops (fst (restore (view s) st)) \<and>
   snd (restore_obj s st) = snd (restore (view s) st)"
  by (simp add: restore_obj_def restore_def view_def tasks_refs_def new_objects_map
      split: sum.split tasks_attribute.split)

lemma load_obj_view:
  "tasks (view (fst (load_workflow_state_obj s fs p))) =
     tasks (fst (load_workflow_state (view s) fs p)) \<and>
   max_loops (view (fst (load_workflow_state_obj s fs p))) =
     max_loops (fst (load_workflow_state (view s) fs p)) \<and>
   snd (load_workflow_state_obj s fs p) = snd (load_workflow_state (view s) fs p)"
  by (simp add: load_workflow_state_obj_def load_workflow_state_def restore_obj_view
      split: sum.split)

lemma add_obj_view:
  "map_sum id (\<lambda>s'. task_pool (view s')) (add_obj s a b) =
   map_sum id task_pool (add (view s) (map_option (objects s) a) (map_option (map (objects s)) b))"
  by (simp add: add_obj_def add_def view_def split: option.split list.split)

section \<open>The methods that never touch task_pool\<close>

text \<open>
  The methods that read only: the first model's workflow with another \<^verbatim>\<open>task_pool\<close>
  gives them the same to read.
\<close>

lemma get_task_results_ignores_task_pool:
  "get_task_results (w\<lparr>task_pool := q\<rparr>) = get_task_results w"
  by (simp add: get_task_results_def)

lemma save_ignores_task_pool:
  "save_workflow_state (w\<lparr>task_pool := q\<rparr>) fs p = save_workflow_state w fs p"
  by (simp add: save_workflow_state_def cong: sum.case_cong option.case_cong)

lemma read_state_ignores_task_pool:
  "read_state (w\<lparr>task_pool := q\<rparr>) fs p = read_state w fs p"
  by (simp add: read_state_def)

lemma tasks_refs_other_pool:
  "tasks_attr s \<noteq> The_task_pool \<Longrightarrow> tasks_refs (s\<lparr>pool_refs := q\<rparr>) = tasks_refs s"
  by (cases "tasks_attr s") (simp_all add: tasks_refs_def)

lemma view_other_pool:
  "tasks_attr s \<noteq> The_task_pool \<Longrightarrow>
     view (s\<lparr>pool_refs := q\<rparr>) = (view s)\<lparr>task_pool := map (objects s) q\<rparr>"
  by (simp add: view_def tasks_refs_other_pool)

lemma add_obj_frame:
  "add_obj s a b = Inr s' \<Longrightarrow> \<exists>q. s' = s\<lparr>pool_refs := pool_refs s @ q\<rparr>"
  by (auto simp add: add_obj_def split: option.splits list.splits)

lemma reset_obj_frame:
  "tasks_attr s \<noteq> The_task_pool \<Longrightarrow>
     reset_obj (s\<lparr>pool_refs := q\<rparr>) = (fst (reset_obj s)\<lparr>pool_refs := q\<rparr>, snd (reset_obj s))"
  by (simp add: reset_obj_def tasks_refs_other_pool split: option.split)

lemma get_task_results_obj_frame:
  "tasks_attr s \<noteq> The_task_pool \<Longrightarrow>
     get_task_results_obj (s\<lparr>pool_refs := q\<rparr>) = get_task_results_obj s"
  by (simp add: get_task_results_obj_def view_other_pool get_task_results_ignores_task_pool)

lemma save_obj_frame:
  "tasks_attr s \<noteq> The_task_pool \<Longrightarrow>
     save_workflow_state_obj (s\<lparr>pool_refs := q\<rparr>) fs p = save_workflow_state_obj s fs p"
  by (simp add: save_workflow_state_obj_def view_other_pool save_ignores_task_pool)

lemma remove_task_obj_frame:
  "tasks_attr s \<noteq> The_task_pool \<Longrightarrow>
     remove_task_obj (s\<lparr>pool_refs := q\<rparr>) d =
       (fst (remove_task_obj s d)\<lparr>pool_refs := q\<rparr>, snd (remove_task_obj s d))"
  by (simp add: remove_task_obj_def tasks_refs_other_pool split: option.split)

lemma update_task_obj_frame:
  "tasks_attr s \<noteq> The_task_pool \<Longrightarrow>
     update_task_obj (s\<lparr>pool_refs := q\<rparr>) d u =
       (case update_task_obj s d u of
          Inl e \<Rightarrow> Inl e
        | Inr r \<Rightarrow> Inr (fst r\<lparr>pool_refs := q\<rparr>, snd r))"
  by (simp add: update_task_obj_def tasks_refs_other_pool update_loop_obj_fails
      split: option.split)

lemma delete_task_obj_frame:
  "tasks_attr s \<noteq> The_task_pool \<Longrightarrow>
     delete_task_obj (s\<lparr>pool_refs := q\<rparr>) d =
       (fst (delete_task_obj s d)\<lparr>pool_refs := q\<rparr>, snd (delete_task_obj s d))"
  by (simp add: delete_task_obj_def tasks_refs_other_pool delete_loop_obj_fails
      split: option.split)

lemma restore_obj_frame:
  "restore_obj (s\<lparr>pool_refs := q\<rparr>) st =
     (fst (restore_obj s st)\<lparr>pool_refs := q\<rparr>, snd (restore_obj s st))"
  by (simp add: restore_obj_def split: sum.split)

lemma load_obj_frame:
  "tasks_attr s \<noteq> The_task_pool \<Longrightarrow>
     load_workflow_state_obj (s\<lparr>pool_refs := q\<rparr>) fs p =
       (fst (load_workflow_state_obj s fs p)\<lparr>pool_refs := q\<rparr>,
        snd (load_workflow_state_obj s fs p))"
  by (simp add: load_workflow_state_obj_def view_other_pool read_state_ignores_task_pool
      restore_obj_frame split: sum.split)

section \<open>The claims\<close>

subsection \<open>C1: saving and loading\<close>

text \<open>
  Claim C1 (save_workflow_state followed by load_workflow_state from the same path
  reproduces every task and max_loops). The code does not: the record written for a
  task has no \<open>agent\<close> entry, and the loader reads \<^verbatim>\<open>task_state["agent"]\<close>. For the
  example workflow of two tasks the save succeeds, and the load of the file just
  written stops at the first record with \<open>KeyError\<close>, after it has emptied the pool.
\<close>

theorem save_then_load_loses_pool:
  "save_workflow_state example_workflow empty_fs (Some ''state.json'') =
     (empty_fs(''state.json'' :=
        Regular (Doc (workflow_state [fetch_weather, build_report] (PInt 2)))), None) \<and>
   load_workflow_state example_workflow saved_fs (Some ''state.json'') =
     (example_workflow\<lparr>tasks := Some []\<rparr>,
      Some (Error_loading_workflow_state (KeyError ''agent'')))"
  by (simp add: saved_fs_def example_workflow_def fetch_weather_def build_report_def
      empty_fs_def load_workflow_state_def save_workflow_state_def path_or_def
      open_write_def open_read_def read_state_def restore_def bind_def json_load_def
      workflow_state_def task_state_def task_of_state_def not_too_long)

subsection \<open>C2: update_task\<close>

text \<open>
  Claim C2 (update_task merges the updates into the kwargs of the task with the given
  description). The code does not: in Scenario B of the spec, with a task described
  \<open>fetch-weather\<close> in the pool, \<^verbatim>\<open>update_task("fetch-weather", retries=3)\<close> finds no
  match, prints the \<open>ValueError\<close> of its \<^verbatim>\<open>else\<close> branch and leaves the kwargs of
  the task as they were.
\<close>

theorem update_task_scenario_B:
  "update_task example_workflow ''fetch-weather'' [(''retries'', PInt 3)] =
     Inr (example_workflow, Some (Error_updating_task ValueError))"
  by (simp add: update_task_unchanged example_workflow_def)

subsection \<open>C3: remove_task and delete_task\<close>

text \<open>
  Claim C3 (remove_task and delete_task remove the first task with the given
  description). The code removes nothing: with a task described \<open>fetch-weather\<close> in the
  pool, \<^verbatim>\<open>remove_task("fetch-weather")\<close> keeps both tasks and prints nothing, and
  \<^verbatim>\<open>delete_task("fetch-weather")\<close> keeps both tasks and prints the \<open>ValueError\<close> of its
  \<^verbatim>\<open>else\<close> branch.
\<close>

theorem remove_and_delete_keep_task:
  "remove_task example_workflow ''fetch-weather'' = (example_workflow, None) \<and>
   delete_task example_workflow ''fetch-weather'' =
     (example_workflow, Some (Error_deleting_task ValueError))"
  by (simp add: remove_task_unchanged delete_task_unchanged example_workflow_def)

subsection \<open>C4: a load that fails\<close>

text \<open>
  Claim C4 (a failed load_workflow_state surfaces the error and leaves the pool and
  max_loops as they were). The code does neither: the handler prints the error and the
  call returns normally, and the assignments made before the failure stay. Here the
  workflow in memory holds one task and \<open>max_loops = 7\<close>; loading the file the example
  workflow saved fails on the first record (no \<open>agent\<close>), and the workflow is left with
  the file's \<open>max_loops = 2\<close> and an empty pool.
\<close>

theorem load_failure_changes_state:
  "load_workflow_state stale_workflow saved_fs (Some ''state.json'') =
     (stale_workflow\<lparr>max_loops := Some (PInt 2), tasks := Some []\<rparr>,
      Some (Error_loading_workflow_state (KeyError ''agent''))) \<and>
   stale_workflow\<lparr>max_loops := Some (PInt 2), tasks := Some []\<rparr> \<noteq> stale_workflow"
  by (simp add: saved_fs_def stale_workflow_def example_workflow_def fetch_weather_def
      build_report_def empty_fs_def load_workflow_state_def save_workflow_state_def path_or_def
      open_write_def open_read_def read_state_def restore_def bind_def json_load_def
      workflow_state_def task_state_def task_of_state_def not_too_long)

text \<open>
  Claim C4 as amended. Whatever makes load_workflow_state fail, the error is caught and
  printed as a diagnostic of the loader, and the call returns. If the failure comes
  before the file's \<open>max_loops\<close> has been read (no usable path, a file that cannot be
  opened, a file that is not JSON, a document without \<open>max_loops\<close>), the workflow is
  exactly as it was. If it comes later, \<open>max_loops\<close> holds the file's value and the
  pool holds exactly the tasks rebuilt from the records before the first one that
  cannot be rebuilt (none, when \<open>tasks\<close> is missing or cannot be iterated); nothing
  else changes. When every record can be rebuilt nothing is printed, and the pool holds
  the tasks of all records.
\<close>

theorem load_failure_effect:
  "(\<forall>e. path_or p (restore_state_filepath w) = Inl e \<longrightarrow>
      load_workflow_state w fs p = (w, Some (Error_loading_workflow_state e))) \<and>
   (\<forall>path e. path_or p (restore_state_filepath w) = Inr path \<and> open_read fs path = Inl e \<longrightarrow>
      load_workflow_state w fs p = (w, Some (Error_loading_workflow_state e))) \<and>
   (\<forall>path c e. path_or p (restore_state_filepath w) = Inr path \<and> open_read fs path = Inr c \<and>
        json_load c = Inl e \<longrightarrow>
      load_workflow_state w fs p = (w, Some (Error_loading_workflow_state e))) \<and>
   (\<forall>state e. read_state w fs p = Inr state \<and> getitem state ''max_loops'' = Inl e \<longrightarrow>
      load_workflow_state w fs p = (w, Some (Error_loading_workflow_state e))) \<and>
   (\<forall>state ml e. read_state w fs p = Inr state \<and> getitem state ''max_loops'' = Inr ml \<and>
        getitem state ''tasks'' = Inl e \<longrightarrow>
      load_workflow_state w fs p =
        (w\<lparr>max_loops := Some ml, tasks := Some []\<rparr>, Some (Error_loading_workflow_state e))) \<and>
   (\<forall>state ml v e. read_state w fs p = Inr state \<and> getitem state ''max_loops'' = Inr ml \<and>
        getitem state ''tasks'' = Inr v \<and> iterate v = Inl e \<longrightarrow>
      load_workflow_state w fs p =
        (w\<lparr>max_loops := Some ml, tasks := Some []\<rparr>, Some (Error_loading_workflow_state e))) \<and>
   (\<forall>state ml v recs. read_state w fs p = Inr state \<and> getitem state ''max_loops'' = Inr ml \<and>
        getitem state ''tasks'' = Inr v \<and> iterate v = Inr recs \<longrightarrow>
      (\<exists>ts. fst (load_workflow_state w fs p) = w\<lparr>max_loops := Some ml, tasks := Some ts\<rparr> \<and>
            length ts \<le> length recs \<and>
            (\<forall>i<length ts. task_of_state (recs ! i) = Inr (ts ! i)) \<and>
            (length ts = length recs \<longrightarrow> snd (load_workflow_state w fs p) = None) \<and>
            (length ts < length recs \<longrightarrow>
               (\<exists>e. task_of_state (recs ! length ts) = Inl e \<and>
                    snd (load_workflow_state w fs p) =
                      Some (Error_loading_workflow_state e)))))"
proof -
  have p1: "load_workflow_state w fs p = (w, Some (Error_loading_workflow_state e))"
    if "path_or p (restore_state_filepath w) = Inl e" for e
    using that by (simp add: load_workflow_state_def read_state_def bind_def)
  have p2: "load_workflow_state w fs p = (w, Some (Error_loading_workflow_state e))"
    if "path_or p (restore_state_filepath w) = Inr path \<and> open_read fs path = Inl e" for path e
    using that by (simp add: load_workflow_state_def read_state_def bind_def)
  have p3: "load_workflow_state w fs p = (w, Some (Error_loading_workflow_state e))"
    if "path_or p (restore_state_filepath w) = Inr path \<and> open_read fs path = Inr c \<and>
        json_load c = Inl e" for path c e
    using that by (simp add: load_workflow_state_def read_state_def bind_def)
  have p4: "load_workflow_state w fs p = (w, Some (Error_loading_workflow_state e))"
    if "read_state w fs p = Inr state \<and> getitem state ''max_loops'' = Inl e" for state e
    using that by (simp add: load_workflow_state_def restore_def)
  have p5: "load_workflow_state w fs p =
        (w\<lparr>max_loops := Some ml, tasks := Some []\<rparr>, Some (Error_loading_workflow_state e))"
    if "read_state w fs p = Inr state \<and> getitem state ''max_loops'' = Inr ml \<and>
        getitem state ''tasks'' = Inl e" for state ml e
    using that by (simp add: load_workflow_state_def restore_def bind_def)
  have p6: "load_workflow_state w fs p =
        (w\<lparr>max_loops := Some ml, tasks := Some []\<rparr>, Some (Error_loading_workflow_state e))"
    if "read_state w fs p = Inr state \<and> getitem state ''max_loops'' = Inr ml \<and>
        getitem state ''tasks'' = Inr v \<and> iterate v = Inl e" for state ml v e
    using that by (simp add: load_workflow_state_def restore_def bind_def)
  have p7: "\<exists>ts. fst (load_workflow_state w fs p) = w\<lparr>max_loops := Some ml, tasks := Some ts\<rparr> \<and>
            length ts \<le> length recs \<and>
            (\<forall>i<length ts. task_of_state (recs ! i) = Inr (ts ! i)) \<and>
            (length ts = length recs \<longrightarrow> snd (load_workflow_state w fs p) = None) \<and>
            (length ts < length recs \<longrightarrow>
               (\<exists>e. task_of_state (recs ! length ts) = Inl e \<and>
                    snd (load_workflow_state w fs p) =
                      Some (Error_loading_workflow_state e)))"
    if a: "read_state w fs p = Inr state \<and> getitem state ''max_loops'' = Inr ml \<and>
        getitem state ''tasks'' = Inr v \<and> iterate v = Inr recs" for state ml v recs
  proof -
    from load_loop_prefix [of "[]" recs] obtain good where
      g: "fst (load_loop [] recs) = good" "length good \<le> length recs"
         "\<forall>i<length good. task_of_state (recs ! i) = Inr (good ! i)"
         "case snd (load_loop [] recs) of
            None \<Rightarrow> length good = length recs
          | Some e \<Rightarrow> length good < length recs \<and> task_of_state (recs ! length good) = Inl e"
      by auto
    have l: "load_workflow_state w fs p =
        (w\<lparr>max_loops := Some ml, tasks := Some good\<rparr>,
         map_option Error_loading_workflow_state (snd (load_loop [] recs)))"
      using a g(1) by (simp add: load_workflow_state_def restore_def bind_def)
    show ?thesis
    proof (intro exI [of _ good] conjI)
      show "fst (load_workflow_state w fs p) = w\<lparr>max_loops := Some ml, tasks := Some good\<rparr>"
        using l by simp
      show "length good \<le> length recs" by (rule g(2))
      show "\<forall>i<length good. task_of_state (recs ! i) = Inr (good ! i)" by (rule g(3))
      show "length good = length recs \<longrightarrow> snd (load_workflow_state w fs p) = None"
        using l g(4) by (auto split: option.splits)
      show "length good < length recs \<longrightarrow>
               (\<exists>e. task_of_state (recs ! length good) = Inl e \<and>
                    snd (load_workflow_state w fs p) =
                      Some (Error_loading_workflow_state e))"
        using l g(4) by (auto split: option.splits)
    qed
  qed
  show ?thesis
    using p1 p2 p3 p4 p5 p6 p7 by (intro conjI allI impI) blast+
qed

text \<open>
  Every case of the theorem at a file that reaches it, with a workflow of one task and
  \<open>max_loops = 7\<close> in memory: no path at all, no file, a file that cannot be opened, a
  file that is not JSON, a document without \<open>max_loops\<close> (all unchanged); a document
  without \<open>tasks\<close> and one whose \<open>tasks\<close> is a number (\<open>max_loops\<close> becomes 5, the pool
  is emptied); a document whose second record has no \<open>agent\<close> (the pool holds the task
  of the first record); a document that loads.
\<close>

theorem load_failure_effect_witness:
  "load_workflow_state stale_workflow empty_fs None =
     (stale_workflow, Some (Error_loading_workflow_state AttributeError)) \<and>
   load_workflow_state stale_workflow empty_fs (Some ''state.json'') =
     (stale_workflow, Some (Error_loading_workflow_state FileNotFoundError)) \<and>
   load_workflow_state stale_workflow denied_fs (Some ''state.json'') =
     (stale_workflow, Some (Error_loading_workflow_state PermissionError)) \<and>
   load_workflow_state stale_workflow garbage_fs (Some ''state.json'') =
     (stale_workflow, Some (Error_loading_workflow_state JSONDecodeError)) \<and>
   load_workflow_state stale_workflow no_loops_fs (Some ''state.json'') =
     (stale_workflow, Some (Error_loading_workflow_state (KeyError ''max_loops''))) \<and>
   load_workflow_state stale_workflow no_tasks_fs (Some ''state.json'') =
     (stale_workflow\<lparr>max_loops := Some (PInt 5), tasks := Some []\<rparr>,
      Some (Error_loading_workflow_state (KeyError ''tasks''))) \<and>
   load_workflow_state stale_workflow no_list_fs (Some ''state.json'') =
     (stale_workflow\<lparr>max_loops := Some (PInt 5), tasks := Some []\<rparr>,
      Some (Error_loading_workflow_state TypeError)) \<and>
   load_workflow_state stale_workflow partial_fs (Some ''state.json'') =
     (stale_workflow\<lparr>max_loops := Some (PInt 5),
        tasks := Some [\<lparr>description = PStr ''fetch-weather'', agent = PNone, args = PList [],
                        kwargs = PDict [], result = PNone, history = PList []\<rparr>]\<rparr>,
      Some (Error_loading_workflow_state (KeyError ''agent''))) \<and>
   load_workflow_state stale_workflow full_fs (Some ''state.json'') =
     (stale_workflow\<lparr>max_loops := Some (PInt 5),
        tasks := Some [\<lparr>description = PStr ''fetch-weather'', agent = PNone, args = PList [],
                        kwargs = PDict [], result = PNone, history = PList []\<rparr>]\<rparr>,
      None)"
proof -
  note defs = path_or_def open_read_def json_load_def read_state_def bind_def
    stale_workflow_def empty_fs_def denied_fs_def garbage_fs_def no_loops_fs_def
    no_tasks_fs_def no_list_fs_def
  note rule = load_failure_effect [where w = stale_workflow]
  have c1: "path_or None (restore_state_filepath stale_workflow) = Inl AttributeError"
    by (simp add: defs)
  have path: "path_or (Some ''state.json'') (restore_state_filepath stale_workflow) =
      Inr ''state.json''"
    by (simp add: defs)
  have c2: "open_read empty_fs ''state.json'' = Inl FileNotFoundError"
    by (simp add: defs)
  have c2': "open_read denied_fs ''state.json'' = Inl PermissionError"
    by (simp add: defs)
  have c3: "open_read garbage_fs ''state.json'' = Inr NotJson \<and>
      json_load NotJson = Inl JSONDecodeError"
    by (simp add: defs)
  have c4: "read_state stale_workflow no_loops_fs (Some ''state.json'') =
        Inr (PDict [(''tasks'', PList [])]) \<and>
      getitem (PDict [(''tasks'', PList [])]) ''max_loops'' = Inl (KeyError ''max_loops'')"
    by (simp add: defs)
  have c5: "read_state stale_workflow no_tasks_fs (Some ''state.json'') =
        Inr (PDict [(''max_loops'', PInt 5)]) \<and>
      getitem (PDict [(''max_loops'', PInt 5)]) ''max_loops'' = Inr (PInt 5) \<and>
      getitem (PDict [(''max_loops'', PInt 5)]) ''tasks'' = Inl (KeyError ''tasks'')"
    by (simp add: defs)
  have c6: "read_state stale_workflow no_list_fs (Some ''state.json'') =
        Inr (PDict [(''max_loops'', PInt 5), (''tasks'', PInt 3)]) \<and>
      getitem (PDict [(''max_loops'', PInt 5), (''tasks'', PInt 3)]) ''max_loops'' =
        Inr (PInt 5) \<and>
      getitem (PDict [(''max_loops'', PInt 5), (''tasks'', PInt 3)]) ''tasks'' = Inr (PInt 3) \<and>
      iterate (PInt 3) = Inl TypeError"
    by (simp add: defs)
  have l1: "load_workflow_state stale_workflow empty_fs None =
     (stale_workflow, Some (Error_loading_workflow_state AttributeError))"
    using rule [of None empty_fs] c1 by blast
  have l2: "load_workflow_state stale_workflow empty_fs (Some ''state.json'') =
     (stale_workflow, Some (Error_loading_workflow_state FileNotFoundError))"
    using rule [of "Some ''state.json''" empty_fs] path c2 by blast
  have l2': "load_workflow_state stale_workflow denied_fs (Some ''state.json'') =
     (stale_workflow, Some (Error_loading_workflow_state PermissionError))"
    using rule [of "Some ''state.json''" denied_fs] path c2' by blast
  have l3: "load_workflow_state stale_workflow garbage_fs (Some ''state.json'') =
     (stale_workflow, Some (Error_loading_workflow_state JSONDecodeError))"
    using rule [of "Some ''state.json''" garbage_fs] path c3 by blast
  have l4: "load_workflow_state stale_workflow no_loops_fs (Some ''state.json'') =
     (stale_workflow, Some (Error_loading_workflow_state (KeyError ''max_loops'')))"
    using rule [of "Some ''state.json''" no_loops_fs] c4 by blast
  have l5: "load_workflow_state stale_workflow no_tasks_fs (Some ''state.json'') =
     (stale_workflow\<lparr>max_loops := Some (PInt 5), tasks := Some []\<rparr>,
      Some (Error_loading_workflow_state (KeyError ''tasks'')))"
    using rule [of "Some ''state.json''" no_tasks_fs] c5 by blast
  have l6: "load_workflow_state stale_workflow no_list_fs (Some ''state.json'') =
     (stale_workflow\<lparr>max_loops := Some (PInt 5), tasks := Some []\<rparr>,
      Some (Error_loading_workflow_state TypeError))"
    using rule [of "Some ''state.json''" no_list_fs] c6 by blast
  have l7: "load_workflow_state stale_workflow partial_fs (Some ''state.json'') =
     (stale_workflow\<lparr>max_loops := Some (PInt 5),
        tasks := Some [\<lparr>description = PStr ''fetch-weather'', agent = PNone, args = PList [],
                        kwargs = PDict [], result = PNone, history = PList []\<rparr>]\<rparr>,
      Some (Error_loading_workflow_state (KeyError ''agent'')))"
    by (simp add: defs load_workflow_state_def restore_def partial_fs_def full_record_def
        task_of_state_def task_state_def build_report_def)
  have l8: "load_workflow_state stale_workflow full_fs (Some ''state.json'') =
     (stale_workflow\<lparr>max_loops := Some (PInt 5),
        tasks := Some [\<lparr>description = PStr ''fetch-weather'', agent = PNone, args = PList [],
                        kwargs = PDict [], result = PNone, history = PList []\<rparr>]\<rparr>,
      None)"
    by (simp add: defs load_workflow_state_def restore_def full_fs_def full_record_def
        task_of_state_def)
  from l1 l2 l2' l3 l4 l5 l6 l7 l8 show ?thesis by (intro conjI) assumption+
qed

subsection \<open>C5: errors of the mutating methods\<close>




subsection \<open>C6: add\<close>

text \<open>
  Claim C6 (add fails when given neither a task nor a sequence, appends a single task,
  extends the pool by a sequence). Given an empty sequence and no task, the code does
  not extend the pool by nothing: \<^verbatim>\<open>elif tasks:\<close> is false for an empty list, and
  the call raises \<open>ValueError\<close>.
\<close>

theorem add_empty_sequence_raises:
  "add example_workflow None (Some []) = Inl ValueError"
  by (simp add: add_def)

text \<open>
  Claim C6 as amended. add fails with \<open>ValueError\<close> when it is given no task and
  either no sequence or an empty one; given a task it appends that task to the pool
  (whatever sequence comes with it is not read); given no task and a sequence that is
  not empty it extends the pool by all tasks of the sequence, in order. The pool of
  \<^verbatim>\<open>add\<close> is the list held by \<^verbatim>\<open>task_pool\<close>.
\<close>

theorem add_cases:
  "add w None None = Inl ValueError \<and>
   add w None (Some []) = Inl ValueError \<and>
   add w (Some t) seq = Inr (w\<lparr>task_pool := task_pool w @ [t]\<rparr>) \<and>
   (ts \<noteq> [] \<longrightarrow> add w None (Some ts) = Inr (w\<lparr>task_pool := task_pool w @ ts\<rparr>))"
  by (cases ts) (simp_all add: add_def)

theorem add_cases_witness:
  "[fetch_weather, build_report] \<noteq> [] \<and>
   add example_workflow None (Some [fetch_weather, build_report]) =
     Inr (example_workflow\<lparr>task_pool := [fetch_weather, build_report]\<rparr>)"
  using add_cases [of example_workflow fetch_weather None "[fetch_weather, build_report]"]
  by (simp add: example_workflow_def)

subsection \<open>C7 and C8: reset\<close>

text \<open>
  Claim C7 (reset sets the result of every task in the pool to None and leaves its
  history, description, args and kwargs unchanged). The pool is the list held by the
  \<^verbatim>\<open>tasks\<close> attribute, the one \<^verbatim>\<open>reset\<close> runs over. The call prints nothing, keeps
  the number and the order of the tasks, and changes no other attribute of the
  workflow.
\<close>

theorem reset_clears_results:
  assumes "tasks w = Some ts"
  shows "\<exists>ts'. reset w = (w\<lparr>tasks := Some ts'\<rparr>, None) \<and> length ts' = length ts \<and>
           (\<forall>i<length ts.
              result (ts' ! i) = PNone \<and>
              history (ts' ! i) = history (ts ! i) \<and>
              description (ts' ! i) = description (ts ! i) \<and>
              args (ts' ! i) = args (ts ! i) \<and>
              kwargs (ts' ! i) = kwargs (ts ! i) \<and>
              agent (ts' ! i) = agent (ts ! i))"
proof (intro exI conjI)
  show "reset w = (w\<lparr>tasks := Some (map (\<lambda>t. t\<lparr>result := PNone\<rparr>) ts)\<rparr>, None)"
    using assms by (simp add: reset_def)
  show "length (map (\<lambda>t. t\<lparr>result := PNone\<rparr>) ts) = length ts"
    by simp
  show "\<forall>i<length ts.
      result (map (\<lambda>t. t\<lparr>result := PNone\<rparr>) ts ! i) = PNone \<and>
      history (map (\<lambda>t. t\<lparr>result := PNone\<rparr>) ts ! i) = history (ts ! i) \<and>
      description (map (\<lambda>t. t\<lparr>result := PNone\<rparr>) ts ! i) = description (ts ! i) \<and>
      args (map (\<lambda>t. t\<lparr>result := PNone\<rparr>) ts ! i) = args (ts ! i) \<and>
      kwargs (map (\<lambda>t. t\<lparr>result := PNone\<rparr>) ts ! i) = kwargs (ts ! i) \<and>
      agent (map (\<lambda>t. t\<lparr>result := PNone\<rparr>) ts ! i) = agent (ts ! i)"
    by simp
qed

text \<open>
  The example workflow has the pool the theorem asks for; its first task has a result,
  which the call clears, and a history of one entry, which the call keeps.
\<close>

theorem reset_clears_results_witness:
  "tasks example_workflow = Some [fetch_weather, build_report] \<and>
   reset example_workflow =
     (example_workflow\<lparr>tasks := Some [fetch_weather\<lparr>result := PNone\<rparr>, build_report]\<rparr>, None) \<and>
   history (fetch_weather\<lparr>result := PNone\<rparr>) = PList [PStr ''pass 1'']"
  using reset_clears_results [of example_workflow "[fetch_weather, build_report]"]
  by (simp add: example_workflow_def reset_def build_report_def fetch_weather_def)

text \<open>
  Claim C8 (reset is idempotent): a second call of \<^verbatim>\<open>reset\<close>, made on the workflow
  the first call left, leaves that workflow as it is and prints what the first call
  printed.
\<close>

theorem reset_idempotent: "reset (fst (reset w)) = reset w"
  by (simp add: reset_def split: option.split)

subsection \<open>C9: extract_tool_commands\<close>

text \<open>
  Claim C9 (for a text with one well-formed and one malformed fenced block,
  extract_tool_commands returns exactly the one parsed command). The code finds both
  blocks, but it returns \<open>None\<close> whatever \<^verbatim>\<open>json.loads\<close> makes of them: the function
  has no \<^verbatim>\<open>return\<close>.
\<close>

theorem extract_tool_commands_returns_None:
  "findall two_blocks = [''{'' @ [CHR 0x22] @ ''tool'' @ [CHR 0x22] @ '': 1}'', ''{broken''] \<and>
   fst (extract_tool_commands loads two_blocks) = PNone"
  by (simp add: extract_tool_commands_def findall_def two_blocks_def fence_def opener_def
      match_at_def)

subsection \<open>C10: task_pool and tasks\<close>

text \<open>
  Claim C10 (add writes only task_pool, the other methods work on tasks only, so a task
  inserted via add never appears in the mapping of get_task_results nor in the record
  written by save_workflow_state). The conclusion fails when the list of
  \<^verbatim>\<open>self.tasks\<close> holds the Task already: in the example, object 0 is the Task
  \<open>fetch-weather\<close> and is in \<^verbatim>\<open>self.tasks\<close>; after \<^verbatim>\<open>add\<close> of that object the
  mapping has its description and result, and the record saved has its state.
\<close>

theorem added_task_in_results:
  "add_obj example_objects (Some 0) None = Inr (example_objects\<lparr>pool_refs := [0]\<rparr>) \<and>
   objects (example_objects\<lparr>pool_refs := [0]\<rparr>) 0 = fetch_weather \<and>
   get_task_results_obj (example_objects\<lparr>pool_refs := [0]\<rparr>) =
     (Some [(description fetch_weather, result fetch_weather),
            (description build_report, result build_report)], None) \<and>
   fst (save_workflow_state_obj (example_objects\<lparr>pool_refs := [0]\<rparr>) empty_fs
          (Some ''state.json'')) ''state.json'' =
     Regular (Doc (PDict [(''tasks'', PList [task_state fetch_weather, task_state build_report]),
                          (''max_loops'', PInt 2)]))"
  by (simp add: add_obj_def example_objects_def get_task_results_obj_def get_task_results_def
      save_workflow_state_obj_def view_def tasks_refs_def fetch_weather_def build_report_def
      save_workflow_state_def path_or_def open_write_def empty_fs_def workflow_state_def
      task_state_def not_too_long)

text \<open>
  Claim C10 as amended. Provided \<^verbatim>\<open>self.tasks\<close> is not bound to the list object of
  \<^verbatim>\<open>self.task_pool\<close>: every successful call of add appends to the task_pool list
  only and leaves the tasks attribute and every Task object unchanged, while reset,
  get_task_results, remove_task, update_task, delete_task, save_workflow_state and
  load_workflow_state operate on the tasks attribute and never read or write the
  task_pool list (with any other list \<open>q\<close> of references in task_pool they return,
  print and write the same, make the same changes to the Task objects and the other
  attributes, and leave \<open>q\<close> in task_pool); consequently add never changes the mapping
  returned by get_task_results nor the record written by save_workflow_state, and a
  task inserted via add appears there only if the tasks attribute holds it already.
\<close>

theorem task_pool_frame:
  assumes "tasks_attr s \<noteq> The_task_pool"
  shows
  "(add_obj s a b = Inr s' \<longrightarrow>
      (\<exists>q. s' = s\<lparr>pool_refs := pool_refs s @ q\<rparr>) \<and>
      get_task_results_obj s' = get_task_results_obj s \<and>
      save_workflow_state_obj s' fs p = save_workflow_state_obj s fs p) \<and>
   reset_obj (s\<lparr>pool_refs := q\<rparr>) = (fst (reset_obj s)\<lparr>pool_refs := q\<rparr>, snd (reset_obj s)) \<and>
   get_task_results_obj (s\<lparr>pool_refs := q\<rparr>) = get_task_results_obj s \<and>
   remove_task_obj (s\<lparr>pool_refs := q\<rparr>) d =
     (fst (remove_task_obj s d)\<lparr>pool_refs := q\<rparr>, snd (remove_task_obj s d)) \<and>
   update_task_obj (s\<lparr>pool_refs := q\<rparr>) d u =
     (case update_task_obj s d u of
        Inl e \<Rightarrow> Inl e
      | Inr r \<Rightarrow> Inr (fst r\<lparr>pool_refs := q\<rparr>, snd r)) \<and>
   delete_task_obj (s\<lparr>pool_refs := q\<rparr>) d =
     (fst (delete_task_obj s d)\<lparr>pool_refs := q\<rparr>, snd (delete_task_obj s d)) \<and>
   save_workflow_state_obj (s\<lparr>pool_refs := q\<rparr>) fs p = save_workflow_state_obj s fs p \<and>
   load_workflow_state_obj (s\<lparr>pool_refs := q\<rparr>) fs p =
     (fst (load_workflow_state_obj s fs p)\<lparr>pool_refs := q\<rparr>,
      snd (load_workflow_state_obj s fs p))"
proof -
  have "(\<exists>q. s' = s\<lparr>pool_refs := pool_refs s @ q\<rparr>) \<and>
      get_task_results_obj s' = get_task_results_obj s \<and>
      save_workflow_state_obj s' fs p = save_workflow_state_obj s fs p"
    if "add_obj s a b = Inr s'"
  proof -
    from add_obj_frame [OF that] obtain q' where q': "s' = s\<lparr>pool_refs := pool_refs s @ q'\<rparr>" ..
    with assms show ?thesis
      by (auto simp add: get_task_results_obj_frame save_obj_frame)
  qed
  moreover note reset_obj_frame [OF assms, of q] get_task_results_obj_frame [OF assms, of q]
    remove_task_obj_frame [OF assms, of q d] update_task_obj_frame [OF assms, of q d u]
    delete_task_obj_frame [OF assms, of q d] save_obj_frame [OF assms, of q fs p]
    load_obj_frame [OF assms, of q fs p]
  ultimately show ?thesis by blast
qed

text \<open>
  With only the second Task in \<^verbatim>\<open>self.tasks\<close>, adding the first puts it into
  task_pool, and the mapping of the results is the one from before the call.
\<close>

theorem task_pool_frame_witness:
  "tasks_attr second_only \<noteq> The_task_pool \<and>
   add_obj second_only (Some 0) None = Inr (second_only\<lparr>pool_refs := [0]\<rparr>) \<and>
   get_task_results_obj (second_only\<lparr>pool_refs := [0]\<rparr>) =
     (Some [(PStr ''build-report'', PNone)], None) \<and>
   get_task_results_obj second_only = (Some [(PStr ''build-report'', PNone)], None)"
proof -
  have h: "tasks_attr second_only \<noteq> The_task_pool"
    by (simp add: second_only_def)
  have a: "add_obj second_only (Some 0) None = Inr (second_only\<lparr>pool_refs := [0]\<rparr>)"
    by (simp add: add_obj_def second_only_def example_objects_def)
  have g: "get_task_results_obj second_only = (Some [(PStr ''build-report'', PNone)], None)"
    by (simp add: get_task_results_obj_def get_task_results_def view_def tasks_refs_def
        second_only_def example_objects_def build_report_def)
  from task_pool_frame [OF h, of "Some 0" None "second_only\<lparr>pool_refs := [0]\<rparr>"] a
  have "get_task_results_obj (second_only\<lparr>pool_refs := [0]\<rparr>) =
      get_task_results_obj second_only"
    by blast
  with h a g show ?thesis by simp
qed

end
